theory Spec2Isabelle
  imports Main "HOL-Library.AList"
begin

section \<open>Python values and exceptions\<close>

text \<open>
  The tools handle loosely typed data: decoded YAML documents, template configurations and
  patch bodies are Python dictionaries, lists and scalars. A dictionary is an association
  list in insertion order; assigning to a key that is present keeps its position, assigning
  to a new key appends it (\<open>AList.update\<close>).
\<close>

datatype pyval =
    PNone
  | PBool bool
  | PInt int
  | PStr string
  | PList "pyval list"
  | PDict "(string \<times> pyval) list"

text \<open>
  The exceptions that the modelled code can meet. \<open>ApiException\<close> carries the status and
  the reason of the remote answer; \<open>TypeError_not_awaitable\<close> is the \<open>TypeError\<close> of
  \<open>await\<close> applied to a value that is not awaitable; \<open>ValueError\<close> is what a model class
  of the client library raises for a required argument that is \<open>None\<close>; \<open>OtherException\<close>
  stands for an exception of any other class, with its text, such as the error of the HTTP
  layer when the server cannot be reached.
\<close>

datatype py_error =
    KeyError string
  | TypeError
  | AttributeError
  | TypeError_not_awaitable
  | ValueError
  | ApiException int string
  | RuntimeError string
  | OtherException string


section \<open>The client library and the cluster\<close>

text \<open>
  The model classes of the client library that the tools build, with the constructor
  arguments in the order given: \<open>V1ContainerPort(container_port, protocol, name)\<close>,
  \<open>V1EnvVar(name, value, value_from)\<close>, \<open>V1ResourceRequirements(requests, limits)\<close>,
  \<open>V1Container(name, image, ports, env, resources, command, args)\<close>,
  \<open>V1ObjectMeta(name, namespace, labels)\<close>, \<open>V1PodSpec(containers, restart_policy)\<close>,
  \<open>V1Pod(api_version, kind, metadata, spec)\<close>, \<open>V1PodTemplateSpec(metadata, spec)\<close>,
  \<open>V1JobSpec(completions, parallelism, backoff_limit, template)\<close> and
  \<open>V1Job(api_version, kind, metadata, spec)\<close>.
\<close>

datatype v1_container_port = V1ContainerPort pyval pyval pyval

datatype v1_env_var = V1EnvVar pyval pyval pyval

datatype v1_resource_requirements = V1ResourceRequirements pyval pyval

datatype v1_container =
  V1Container string pyval "v1_container_port list" "v1_env_var list"
    "v1_resource_requirements option" pyval pyval

datatype v1_object_meta =
  V1ObjectMeta "string option" "string option" "(string \<times> string) list"

datatype v1_pod_spec = V1PodSpec "v1_container list" pyval

datatype v1_pod = V1Pod string string v1_object_meta v1_pod_spec

datatype v1_pod_template_spec = V1PodTemplateSpec v1_object_meta v1_pod_spec

datatype v1_job_spec = V1JobSpec int int int v1_pod_template_spec

datatype v1_job = V1Job string string v1_object_meta v1_job_spec

text \<open>Remote operations of the client library, and the construction of a manager, as events.\<close>

datatype effect =
    Load_config
  | Read_namespaced_config_map pyval pyval
  | Replace_namespaced_config_map pyval pyval pyval
  | Create_namespaced_config_map pyval pyval
  | Delete_namespaced_deployment string string
  | Delete_namespaced_service string string
  | Delete_namespaced_pod string string
  | Delete_namespaced_job string string
  | Delete_namespaced_ingress string string
  | Create_namespaced_pod string v1_pod
  | Create_namespaced_job string v1_job
  | Patch_namespaced_deployment string string pyval
  | Read_namespaced_deployment string string

text \<open>
  The cluster is an opaque remote service. The outcome of a call may depend on everything
  that was sent before, so it is a function of the calls made so far and of the call itself:
  a response object of the client library, kept abstract as \<open>'r\<close>, or an exception. The
  exception is an \<open>ApiException\<close> with status and reason when the server answers with a
  failure, and an exception of another class when the call fails otherwise, as it does when
  the server cannot be reached. \<open>discovery\<close> says whether configuration discovery succeeds
  at that moment, and \<open>awaitable\<close> whether the values returned by the client can be awaited.
\<close>

record 'r cluster =
  discovery :: "effect list \<Rightarrow> bool"
  respond :: "effect list \<Rightarrow> effect \<Rightarrow> py_error + 'r"
  awaitable :: bool

section \<open>The tracked-resource registry (k8s\_manager.py)\<close>

text \<open>
  An entry of \<open>_tracked_resources\<close> is a dictionary with the keys \<open>kind\<close>, \<open>name\<close> and
  \<open>namespace\<close>; the registry maps the key \<open>namespace/name\<close> to the entry and keeps the
  order of insertion.
\<close>

record tracked =
  kind :: string
  name :: string
  namespace :: string

record kubernetes_manager =
  tracked_resources :: "(string \<times> tracked) list"

text \<open>\<open>KubernetesManager.__init__\<close>: configuration discovery, then an empty registry.\<close>

definition KubernetesManager ::
  "'r cluster \<Rightarrow> effect list \<Rightarrow> (py_error + kubernetes_manager) \<times> effect list" where
  "KubernetesManager K log =
     (if discovery K log
      then (Inr \<lparr>tracked_resources = []\<rparr>, log @ [Load_config])
      else (Inl (RuntimeError ''Could not configure kubernetes python client''),
            log @ [Load_config]))"

definition track_resource ::
  "string \<Rightarrow> string \<Rightarrow> string \<Rightarrow> kubernetes_manager \<Rightarrow> kubernetes_manager" where
  "track_resource knd nm nsp m =
     (let key = nsp @ ''/'' @ nm
      in m\<lparr>tracked_resources :=
             AList.update key \<lparr>kind = knd, name = nm, namespace = nsp\<rparr>
               (tracked_resources m)\<rparr>)"

definition get_tracked_resources :: "kubernetes_manager \<Rightarrow> (string \<times> tracked) list" where
  "get_tracked_resources m = tracked_resources m"

definition clear_tracked_resources :: "kubernetes_manager \<Rightarrow> kubernetes_manager" where
  "clear_tracked_resources m = m\<lparr>tracked_resources := []\<rparr>"

text \<open>The \<open>if\<close>/\<open>elif\<close> chain of \<open>cleanup_resources\<close>: the delete call made for an entry.\<close>

definition delete_call :: "tracked \<Rightarrow> effect option" where
  "delete_call resource =
     (if kind resource = ''Deployment''
      then Some (Delete_namespaced_deployment (name resource) (namespace resource))
      else if kind resource = ''Service''
      then Some (Delete_namespaced_service (name resource) (namespace resource))
      else if kind resource = ''Pod''
      then Some (Delete_namespaced_pod (name resource) (namespace resource))
      else if kind resource = ''Job''
      then Some (Delete_namespaced_job (name resource) (namespace resource))
      else if kind resource = ''Ingress''
      then Some (Delete_namespaced_ingress (name resource) (namespace resource))
      else None)"

text \<open>
  The loop of \<open>cleanup_resources\<close> over the registry's values. The state is the list of
  calls made so far and the list of logged failures (the entry and its \<open>ApiException\<close>).
  The handler in the loop catches \<open>ApiException\<close> only: any other exception of a delete
  leaves the loop, and the first component of the result is that exception.
\<close>

fun cleanup_loop ::
  "'r cluster \<Rightarrow> tracked list \<Rightarrow> effect list \<times> (tracked \<times> int \<times> string) list
     \<Rightarrow> py_error option \<times> effect list \<times> (tracked \<times> int \<times> string) list" where
  "cleanup_loop K [] (log, errors) = (None, log, errors)"
| "cleanup_loop K (resource # rest) (log, errors) =
     (case delete_call resource of
        None \<Rightarrow> cleanup_loop K rest (log, errors)
      | Some c \<Rightarrow>
          (case respond K log c of
             Inr response \<Rightarrow> cleanup_loop K rest (log @ [c], errors)
           | Inl (ApiException status reason) \<Rightarrow>
               cleanup_loop K rest (log @ [c], errors @ [(resource, status, reason)])
           | Inl e \<Rightarrow> (Some e, log @ [c], errors)))"

text \<open>
  \<open>cleanup_resources\<close>: the loop, then \<open>clear_tracked_resources()\<close>. An exception that
  leaves the loop leaves the function as well, before the registry is cleared.
\<close>

definition cleanup_resources ::
  "'r cluster \<Rightarrow> kubernetes_manager \<Rightarrow> effect list \<times> (tracked \<times> int \<times> string) list
     \<Rightarrow> py_error option \<times> kubernetes_manager \<times> effect list \<times> (tracked \<times> int \<times> string) list"
  where
  "cleanup_resources K m st =
     (case cleanup_loop K (map snd (tracked_resources m)) st of
        (None, st') \<Rightarrow> (None, clear_tracked_resources m, st')
      | (Some e, st') \<Rightarrow> (Some e, m, st'))"

section \<open>Python operations on loosely typed values\<close>

text \<open>Truth value testing, as \<open>if x:\<close> and \<open>not x\<close> do it.\<close>

fun truthy :: "pyval \<Rightarrow> bool" where
  "truthy PNone = False"
| "truthy (PBool b) = b"
| "truthy (PInt i) = (i \<noteq> 0)"
| "truthy (PStr s) = (s \<noteq> [])"
| "truthy (PList xs) = (xs \<noteq> [])"
| "truthy (PDict kvs) = (kvs \<noteq> [])"

text \<open>
  \<open>obj[key]\<close> with a string key: a dictionary raises \<open>KeyError\<close> for a missing key, every
  other value raises \<open>TypeError\<close> (not subscriptable, or indices must be integers).
\<close>

fun getitem :: "pyval \<Rightarrow> string \<Rightarrow> py_error + pyval" where
  "getitem (PDict kvs) k = (case map_of kvs k of Some v \<Rightarrow> Inr v | None \<Rightarrow> Inl (KeyError k))"
| "getitem PNone k = Inl TypeError"
| "getitem (PBool b) k = Inl TypeError"
| "getitem (PInt i) k = Inl TypeError"
| "getitem (PStr s) k = Inl TypeError"
| "getitem (PList xs) k = Inl TypeError"

text \<open>\<open>obj[key] = v\<close> with a string key; the updated object is returned.\<close>

fun setitem :: "pyval \<Rightarrow> string \<Rightarrow> pyval \<Rightarrow> py_error + pyval" where
  "setitem (PDict kvs) k v = Inr (PDict (AList.update k v kvs))"
| "setitem PNone k v = Inl TypeError"
| "setitem (PBool b) k v = Inl TypeError"
| "setitem (PInt i) k v = Inl TypeError"
| "setitem (PStr s) k v = Inl TypeError"
| "setitem (PList xs) k v = Inl TypeError"




text \<open>\<open>sep.join(xs)\<close>.\<close>

fun join :: "string \<Rightarrow> string list \<Rightarrow> string" where
  "join sep [] = []"
| "join sep [x] = x"
| "join sep (x # y # ys) = x @ sep @ join sep (y # ys)"


text \<open>
  How Python and the client library turn objects into text is not part of the repository:
  \<open>str\<close> of a value that is not a string, \<open>str\<close> of an exception, \<open>str\<close> of a response
  object. The two formatters of the repository only read attributes of response objects of
  the client library and are total on the responses the server sends; they are taken with
  them. A string formats as itself.
\<close>

record 'r rendering =
  value_str :: "pyval \<Rightarrow> string"
  exc_str :: "py_error \<Rightarrow> string"
  response_str :: "'r \<Rightarrow> string"
  format_pod_info :: "'r \<Rightarrow> string"
  format_deployment_info :: "'r \<Rightarrow> string"

definition py_str :: "'r rendering \<Rightarrow> pyval \<Rightarrow> string" where
  "py_str R v = (case v of PStr s \<Rightarrow> s | _ \<Rightarrow> value_str R v)"

section \<open>The multi-document apply engine (yaml\_tools.py)\<close>

text \<open>\<open>resource["metadata"]["namespace"] = namespace\<close>, the inner dictionary updated in place.\<close>

definition set_namespace :: "pyval \<Rightarrow> string \<Rightarrow> py_error + pyval" where
  "set_namespace resource nsp =
     (case getitem resource ''metadata'' of
        Inl e \<Rightarrow> Inl e
      | Inr md \<Rightarrow>
          (case setitem md ''namespace'' (PStr nsp) of
             Inl e \<Rightarrow> Inl e
           | Inr md' \<Rightarrow> setitem resource ''metadata'' md'))"

text \<open>\<open>resource["metadata"][field]\<close>.\<close>

definition metadata_field :: "pyval \<Rightarrow> string \<Rightarrow> py_error + pyval" where
  "metadata_field resource field =
     (case getitem resource ''metadata'' of
        Inl e \<Rightarrow> Inl e
      | Inr md \<Rightarrow> getitem md field)"

text \<open>
  The handler \<open>except ApiException as e\<close> of the upsert: status 404 creates the resource,
  and an exception of the create call leaves the handler; every other status is raised
  again.
\<close>

definition on_api_exception ::
  "'r rendering \<Rightarrow> 'r cluster \<Rightarrow> pyval \<Rightarrow> pyval \<Rightarrow> pyval \<Rightarrow> int \<Rightarrow> string \<Rightarrow> effect list
     \<Rightarrow> (py_error + string) \<times> effect list" where
  "on_api_exception R K resource nm nsv status reason log =
     (if status = 404
      then (let c = Create_namespaced_config_map nsv resource
            in case respond K log c of
                 Inl e' \<Rightarrow> (Inl e', log @ [c])
               | Inr response \<Rightarrow>
                   (Inr (''ConfigMap '' @ py_str R nm @ '' created successfully''), log @ [c]))
      else (Inl (ApiException status reason), log))"

text \<open>
  The \<open>try\<close> block of the ConfigMap branch: read, then replace. An exception of the read
  or of the replace that is no \<open>ApiException\<close> passes the handler.
\<close>

definition upsert_config_map ::
  "'r rendering \<Rightarrow> 'r cluster \<Rightarrow> pyval \<Rightarrow> effect list \<Rightarrow> (py_error + string) \<times> effect list" where
  "upsert_config_map R K resource log =
     (case metadata_field resource ''name'' of
        Inl e \<Rightarrow> (Inl e, log)
      | Inr nm \<Rightarrow>
          (case metadata_field resource ''namespace'' of
             Inl e \<Rightarrow> (Inl e, log)
           | Inr nsv \<Rightarrow>
               (let c = Read_namespaced_config_map nm nsv
                in case respond K log c of
                     Inl (ApiException status reason) \<Rightarrow>
                       on_api_exception R K resource nm nsv status reason (log @ [c])
                   | Inl e \<Rightarrow> (Inl e, log @ [c])
                   | Inr existing \<Rightarrow>
                       (let c' = Replace_namespaced_config_map nm nsv resource
                        in case respond K (log @ [c]) c' of
                             Inl (ApiException status reason) \<Rightarrow>
                               on_api_exception R K resource nm nsv status reason
                                 (log @ [c, c'])
                           | Inl e \<Rightarrow> (Inl e, log @ [c, c'])
                           | Inr response \<Rightarrow>
                               (Inr (''ConfigMap '' @ py_str R nm @ '' updated successfully''),
                                log @ [c, c'])))))"

text \<open>
  The body of the loop for a document that is not skipped. The result is the line appended
  to \<open>results\<close>, or the exception that leaves the loop.
\<close>

definition apply_resource ::
  "'r rendering \<Rightarrow> 'r cluster \<Rightarrow> string option \<Rightarrow> pyval \<Rightarrow> effect list
     \<Rightarrow> (py_error + string) \<times> effect list" where
  "apply_resource R K nsp resource log =
     (case getitem resource ''kind'' of
        Inl e \<Rightarrow> (Inl e, log)
      | Inr k \<Rightarrow>
          if k = PStr ''ConfigMap''
          then (case KubernetesManager K log of
                  (Inl e, log') \<Rightarrow> (Inl e, log')
                | (Inr manager, log') \<Rightarrow>
                    (case (case nsp of
                             None \<Rightarrow> Inr resource
                           | Some n \<Rightarrow> if n \<noteq> [] then set_namespace resource n else Inr resource) of
                       Inl e \<Rightarrow> (Inl e, log')
                     | Inr resource' \<Rightarrow> upsert_config_map R K resource' log'))
          else (Inr (''Unsupported resource kind: '' @ py_str R k), log))"

fun apply_loop ::
  "'r rendering \<Rightarrow> 'r cluster \<Rightarrow> string option \<Rightarrow> pyval list \<Rightarrow> string list \<Rightarrow> effect list
     \<Rightarrow> (py_error + string list) \<times> effect list" where
  "apply_loop R K nsp [] results log = (Inr results, log)"
| "apply_loop R K nsp (resource # rest) results log =
     (if \<not> truthy resource then apply_loop R K nsp rest results log
      else (case apply_resource R K nsp resource log of
              (Inl e, log') \<Rightarrow> (Inl e, log')
            | (Inr line, log') \<Rightarrow> apply_loop R K nsp rest (results @ [line]) log'))"

text \<open>
  \<open>apply_yaml\<close> on the documents decoded from \<open>yaml_content\<close>, in their order. The outer
  \<open>except Exception\<close> turns any exception of the loop into the text that is returned.
\<close>

definition apply_yaml ::
  "'r rendering \<Rightarrow> 'r cluster \<Rightarrow> pyval list \<Rightarrow> string option \<Rightarrow> bool \<Rightarrow> effect list
     \<Rightarrow> string \<times> effect list" where
  "apply_yaml R K resources nsp force log =
     (case apply_loop R K nsp resources [] log of
        (Inr results, log') \<Rightarrow> (join [CHR 0x0A] results, log')
      | (Inl e, log') \<Rightarrow> (''Error applying YAML: '' @ exc_str R e, log'))"

section \<open>Template catalogs (pod\_templates.py, container\_templates.py)\<close>









section \<open>Creating a pod or a job from a template (pod\_tools.py, job\_tools.py)\<close>















section \<open>Deployment rollouts and updates (deployment\_tools.py)\<close>







section \<open>Configurations from which a container can be built\<close>











section \<open>Example environments\<close>

text \<open>
  A rendering, and three clusters: one that holds no ConfigMap yet and accepts every write,
  one whose reads of ConfigMaps and deletions of pods are rejected with status 500, and one
  that cannot be reached, so that every call raises the error of the HTTP layer.
\<close>

definition plain_rendering :: "unit rendering" where
  "plain_rendering =
     \<lparr>value_str = (\<lambda>v. ''<value>''),
      exc_str = (\<lambda>e. case e of
                        KeyError k \<Rightarrow> [CHR 0x27] @ k @ [CHR 0x27]
                      | ApiException status reason \<Rightarrow> reason
                      | RuntimeError msg \<Rightarrow> msg
                      | OtherException msg \<Rightarrow> msg
                      | _ \<Rightarrow> ''<exception>''),
      response_str = (\<lambda>r. ''<response>''),
      format_pod_info = (\<lambda>r. ''<pod>''),
      format_deployment_info = (\<lambda>r. ''<deployment>'')\<rparr>"

definition empty_cluster :: "unit cluster" where
  "empty_cluster =
     \<lparr>discovery = (\<lambda>log. True),
      respond = (\<lambda>log c. case c of
                            Read_namespaced_config_map n s \<Rightarrow>
                              Inl (ApiException 404 ''Not Found'')
                          | _ \<Rightarrow> Inr ()),
      awaitable = True\<rparr>"

definition failing_cluster :: "unit cluster" where
  "failing_cluster =
     \<lparr>discovery = (\<lambda>log. True),
      respond = (\<lambda>log c. case c of
                            Read_namespaced_config_map n s \<Rightarrow>
                              Inl (ApiException 500 ''Internal Server Error'')
                          | Delete_namespaced_pod n s \<Rightarrow>
                              Inl (ApiException 500 ''Internal Server Error'')
                          | _ \<Rightarrow> Inr ()),
      awaitable = True\<rparr>"


text \<open>A ConfigMap document with the given name, in the namespace \<open>default\<close>.\<close>

definition config_map_doc :: "string \<Rightarrow> pyval" where
  "config_map_doc n =
     PDict [(''apiVersion'', PStr ''v1''), (''kind'', PStr ''ConfigMap''),
            (''metadata'', PDict [(''name'', PStr n), (''namespace'', PStr ''default'')])]"

section \<open>The example environments, evaluated\<close>

lemma plain_rendering_simps:
  "exc_str plain_rendering (KeyError k) = [CHR 0x27] @ k @ [CHR 0x27]"
  "exc_str plain_rendering (ApiException status reason) = reason"
  "exc_str plain_rendering TypeError_not_awaitable = ''<exception>''"
  "response_str plain_rendering r = ''<response>''"
  "format_pod_info plain_rendering r = ''<pod>''"
  "format_deployment_info plain_rendering r = ''<deployment>''"
  by (simp_all add: plain_rendering_def)

lemma empty_cluster_simps:
  "discovery empty_cluster log = True"
  "awaitable empty_cluster = True"
  "respond empty_cluster log (Read_namespaced_config_map n s)
   = Inl (ApiException 404 ''Not Found'')"
  "respond empty_cluster log (Create_namespaced_config_map s b) = Inr ()"
  "respond empty_cluster log (Create_namespaced_pod s1 p) = Inr ()"
  "respond empty_cluster log (Create_namespaced_job s2 j) = Inr ()"
  "respond empty_cluster log (Patch_namespaced_deployment n1 s3 b1) = Inr ()"
  "respond empty_cluster log (Read_namespaced_deployment n2 s4) = Inr ()"
  by (simp_all add: empty_cluster_def)

lemma failing_cluster_simps:
  "discovery failing_cluster log = True"
  "awaitable failing_cluster = True"
  "respond failing_cluster log (Read_namespaced_config_map n s)
   = Inl (ApiException 500 ''Internal Server Error'')"
  "respond failing_cluster log (Delete_namespaced_pod n1 s1)
   = Inl (ApiException 500 ''Internal Server Error'')"
  "respond failing_cluster log (Delete_namespaced_job n2 s2) = Inr ()"
  by (simp_all add: failing_cluster_def)



section \<open>Properties of the registry\<close>






text \<open>
  Claim C5. \<open>create_cronjob\<close> records its resource with the kind \<open>CronJob\<close>, and
  \<open>cleanup_resources\<close> has no branch for that kind: on a registry that holds one CronJob
  the sweep sends no delete at all and still clears the registry, whatever the cluster.
\<close>

theorem cleanup_resources_skips_cronjob:
  "cleanup_resources K (track_resource ''CronJob'' ''cj'' ''default'' \<lparr>tracked_resources = []\<rparr>)
     ([], [])
   = (None, \<lparr>tracked_resources = []\<rparr>, [], [])"
  by (simp add: cleanup_resources_def track_resource_def clear_tracked_resources_def
        delete_call_def)

text \<open>
  Claim C6, as stated, fails: the key is the text \<open>namespace/name\<close>, the kind is no part of
  it. A Deployment and a Service of the same name and namespace (what \<open>create_deployment\<close>
  followed by \<open>expose_deployment\<close> records) leave one entry, the Service.
\<close>

theorem track_resource_kind_not_in_key_counterexample:
  "get_tracked_resources
     (track_resource ''Service'' ''web'' ''default''
        (track_resource ''Deployment'' ''web'' ''default'' \<lparr>tracked_resources = []\<rparr>))
   = [(''default/web'', \<lparr>kind = ''Service'', name = ''web'', namespace = ''default''\<rparr>)]"
  by (simp add: track_resource_def get_tracked_resources_def)

lemma one_entry_per_key:
  "distinct (map fst al) \<Longrightarrow> k \<in> fst ` set al \<Longrightarrow> length (filter (\<lambda>p. fst p = k) al) = 1"
proof (induction al)
  case Nil
  then show ?case by simp
next
  case (Cons p al)
  show ?case
  proof (cases "fst p = k")
    case True
    from Cons.prems have "fst p \<notin> fst ` set al" by simp
    with True have "\<forall>q \<in> set al. fst q \<noteq> k" by (metis imageI)
    then have "filter (\<lambda>q. fst q = k) al = []"
      by (simp add: filter_empty_conv)
    with True show ?thesis by simp
  next
    case False
    with Cons show ?thesis by auto
  qed
qed

text \<open>
  Claim C6, amended. The registry is keyed by \<open>namespace/name\<close>. Recording a resource and
  then another of the same namespace and name, of the same kind or of another, gives the
  registry that recording only the second gives; the entry found under the key is the one
  recorded last; and a registry with at most one entry per key keeps that property and holds
  exactly one entry under the recorded key.
\<close>

theorem track_resource_overwrites_same_key:
  "track_resource k2 n ns (track_resource k1 n ns m) = track_resource k2 n ns m
   \<and> map_of (get_tracked_resources (track_resource k1 n ns m)) (ns @ ''/'' @ n)
       = Some \<lparr>kind = k1, name = n, namespace = ns\<rparr>
   \<and> (distinct (map fst (get_tracked_resources m)) \<longrightarrow>
        distinct (map fst (get_tracked_resources (track_resource k1 n ns m)))
        \<and> length (filter (\<lambda>p. fst p = ns @ ''/'' @ n)
                   (get_tracked_resources (track_resource k1 n ns m))) = 1)"
proof -
  let ?key = "ns @ ''/'' @ n"
  have a: "track_resource k2 n ns (track_resource k1 n ns m) = track_resource k2 n ns m"
    by (simp add: track_resource_def Let_def)
  have b: "map_of (get_tracked_resources (track_resource k1 n ns m)) ?key
       = Some \<lparr>kind = k1, name = n, namespace = ns\<rparr>"
    by (simp add: track_resource_def get_tracked_resources_def Let_def AList.update_conv')
  have c: "distinct (map fst (get_tracked_resources (track_resource k1 n ns m)))
        \<and> length (filter (\<lambda>p. fst p = ?key)
                   (get_tracked_resources (track_resource k1 n ns m))) = 1"
    if d: "distinct (map fst (get_tracked_resources m))"
  proof -
    have d': "distinct (map fst (get_tracked_resources (track_resource k1 n ns m)))"
      using d by (simp add: track_resource_def get_tracked_resources_def Let_def
          AList.distinct_update)
    have "?key \<in> fst ` set (get_tracked_resources (track_resource k1 n ns m))"
      by (simp add: track_resource_def get_tracked_resources_def Let_def AList.dom_update)
    with d' show ?thesis by (simp add: one_entry_per_key)
  qed
  from a b c show ?thesis by blast
qed

theorem track_resource_overwrites_same_key_witness:
  "length (get_tracked_resources
     (track_resource ''Pod'' ''web'' ''default''
        (track_resource ''Pod'' ''web'' ''default'' \<lparr>tracked_resources = []\<rparr>))) = 1
   \<and> distinct (map fst (get_tracked_resources \<lparr>tracked_resources = []\<rparr>))
   \<and> length (filter (\<lambda>p. fst p = ''default'' @ ''/'' @ ''web'')
       (get_tracked_resources
          (track_resource ''Pod'' ''web'' ''default'' \<lparr>tracked_resources = []\<rparr>))) = 1"
  using track_resource_overwrites_same_key
          [of "''Pod''" "''web''" "''default''" "''Pod''" "\<lparr>tracked_resources = []\<rparr>"]
  by (simp add: track_resource_def get_tracked_resources_def)

section \<open>Properties of the apply engine\<close>

text \<open>
  Documents that were processed without an exception can be split off the front of a batch,
  a document that is skipped can be dropped, and an exception in a document ends the batch.
\<close>

lemma apply_loop_append:
  "apply_loop R K nsp pre results log = (Inr results', log')
   \<Longrightarrow> apply_loop R K nsp (pre @ rest) results log = apply_loop R K nsp rest results' log'"
proof (induction pre arbitrary: results log)
  case Nil
  then show ?case by simp
next
  case (Cons d pre)
  show ?case
  proof (cases "truthy d")
    case False
    with Cons show ?thesis by simp
  next
    case True
    obtain r l where dl: "apply_resource R K nsp d log = (r, l)" by (cases "apply_resource R K nsp d log")
    show ?thesis
    proof (cases r)
      case (Inl e)
      with True dl Cons.prems show ?thesis by simp
    next
      case (Inr line)
      with True dl Cons.prems have "apply_loop R K nsp pre (results @ [line]) l = (Inr results', log')"
        by simp
      from Cons.IH [OF this] True dl Inr show ?thesis by simp
    qed
  qed
qed

lemma apply_loop_skip:
  "\<not> truthy d \<Longrightarrow>
   apply_loop R K nsp (pre @ d # rest) results log = apply_loop R K nsp (pre @ rest) results log"
proof (induction pre arbitrary: results log)
  case Nil
  then show ?case by simp
next
  case (Cons x pre)
  then show ?case
    by (cases "apply_resource R K nsp x log"; cases "fst (apply_resource R K nsp x log)") auto
qed

lemma apply_yaml_abort:
  assumes "apply_loop R K nsp pre [] log = (Inr results, log1)"
    and "truthy d"
    and "apply_resource R K nsp d log1 = (Inl e, log2)"
  shows "apply_yaml R K (pre @ d # rest) nsp force log
         = (''Error applying YAML: '' @ exc_str R e, log2)"
  using assms by (simp add: apply_yaml_def apply_loop_append)

text \<open>
  Claim C1, as stated, fails. Two ConfigMap documents, and a cluster that answers the read
  of the first with status 500: the result is the single line of the outer handler, the
  second document is never read or written, and no outcome of it is reported.
\<close>

theorem apply_yaml_remote_failure_counterexample:
  "apply_yaml plain_rendering failing_cluster [config_map_doc ''a'', config_map_doc ''b'']
     None False []
   = (''Error applying YAML: Internal Server Error'',
      [Load_config, Read_namespaced_config_map (PStr ''a'') (PStr ''default'')])"
  by (simp add: apply_yaml_def apply_resource_def KubernetesManager_def upsert_config_map_def
        on_api_exception_def metadata_field_def config_map_doc_def failing_cluster_simps
        plain_rendering_simps)

text \<open>
  Claim C1, amended. Let a ConfigMap document follow documents that were processed without
  an exception, and let a remote call for it fail other than by a 404 of the read or of the
  replace: the read or the replace is rejected with another status, or the create that
  follows a 404 is rejected. Then the \<open>ApiException\<close> leaves the loop: \<open>apply_yaml\<close> returns
  the one line \<open>Error applying YAML: ...\<close> in place of the report, so the lines of the
  earlier documents are lost although their calls were made, and no call is made for any
  later document.
\<close>

theorem apply_yaml_remote_failure_aborts_batch:
  assumes pre: "apply_loop R K nsp pre [] log = (Inr results, log1)"
    and doc: "truthy d" "getitem d ''kind'' = Inr (PStr ''ConfigMap'')"
    and disc: "discovery K log1"
    and ns: "(case nsp of None \<Rightarrow> Inr d
              | Some n \<Rightarrow> if n \<noteq> [] then set_namespace d n else Inr d) = Inr d'"
    and md: "metadata_field d' ''name'' = Inr nm" "metadata_field d' ''namespace'' = Inr nsv"
    and failure:
      "(respond K (log1 @ [Load_config]) (Read_namespaced_config_map nm nsv)
          = Inl (ApiException status reason)
        \<and> status \<noteq> 404
        \<and> calls = [Read_namespaced_config_map nm nsv])
       \<or> (respond K (log1 @ [Load_config]) (Read_namespaced_config_map nm nsv) = Inr x
           \<and> respond K (log1 @ [Load_config, Read_namespaced_config_map nm nsv])
                (Replace_namespaced_config_map nm nsv d') = Inl (ApiException status reason)
           \<and> status \<noteq> 404
           \<and> calls = [Read_namespaced_config_map nm nsv,
                       Replace_namespaced_config_map nm nsv d'])
       \<or> (respond K (log1 @ [Load_config]) (Read_namespaced_config_map nm nsv)
             = Inl (ApiException 404 r0)
           \<and> respond K (log1 @ [Load_config, Read_namespaced_config_map nm nsv])
                (Create_namespaced_config_map nsv d') = Inl (ApiException status reason)
           \<and> calls = [Read_namespaced_config_map nm nsv,
                       Create_namespaced_config_map nsv d'])
       \<or> (respond K (log1 @ [Load_config]) (Read_namespaced_config_map nm nsv) = Inr x
           \<and> respond K (log1 @ [Load_config, Read_namespaced_config_map nm nsv])
                (Replace_namespaced_config_map nm nsv d') = Inl (ApiException 404 r0)
           \<and> respond K (log1 @ [Load_config, Read_namespaced_config_map nm nsv,
                                  Replace_namespaced_config_map nm nsv d'])
                (Create_namespaced_config_map nsv d') = Inl (ApiException status reason)
           \<and> calls = [Read_namespaced_config_map nm nsv,
                       Replace_namespaced_config_map nm nsv d',
                       Create_namespaced_config_map nsv d'])"
  shows "apply_yaml R K (pre @ d # rest) nsp force log
         = (''Error applying YAML: '' @ exc_str R (ApiException status reason),
            log1 @ Load_config # calls)"
proof -
  have "upsert_config_map R K d' (log1 @ [Load_config])
        = (Inl (ApiException status reason), log1 @ Load_config # calls)"
    using failure md
    by (auto simp: upsert_config_map_def on_api_exception_def Let_def)
  with doc disc ns
  have "apply_resource R K nsp d log1
        = (Inl (ApiException status reason), log1 @ Load_config # calls)"
    by (simp add: apply_resource_def KubernetesManager_def)
  then show ?thesis by (rule apply_yaml_abort [OF pre doc(1)])
qed

theorem apply_yaml_remote_failure_aborts_batch_witness:
  "respond failing_cluster [Load_config]
     (Read_namespaced_config_map (PStr ''a'') (PStr ''default''))
   = Inl (ApiException 500 ''Internal Server Error'')
   \<and> apply_yaml plain_rendering failing_cluster
       ([PDict [(''kind'', PStr ''Secret'')]] @ config_map_doc ''a'' # [config_map_doc ''b''])
       None False []
     = (''Error applying YAML: Internal Server Error'',
        [Load_config, Read_namespaced_config_map (PStr ''a'') (PStr ''default'')])"
  using apply_yaml_remote_failure_aborts_batch
          [of plain_rendering failing_cluster None "[PDict [(''kind'', PStr ''Secret'')]]" "[]"
              "[''Unsupported resource kind: Secret'']" "[]" "config_map_doc ''a''"
              "config_map_doc ''a''" "PStr ''a''" "PStr ''default''" 500
              "''Internal Server Error''" "[Read_namespaced_config_map (PStr ''a'') (PStr ''default'')]"
              "()" "[]" "[config_map_doc ''b'']" False]
  by (simp add: apply_resource_def py_str_def config_map_doc_def metadata_field_def
        failing_cluster_simps plain_rendering_simps)

text \<open>
  Claim C2, as stated, fails. A mapping that has \<open>metadata\<close> but no \<open>kind\<close>, followed by
  a ConfigMap: \<open>resource["kind"]\<close> raises \<open>KeyError\<close>, the result is the line of the outer
  handler, and the ConfigMap is not processed.
\<close>

theorem apply_yaml_missing_kind_counterexample:
  "apply_yaml plain_rendering empty_cluster
     [PDict [(''metadata'', PDict [(''name'', PStr ''x'')])], config_map_doc ''b''] None False []
   = (''Error applying YAML: '' @ [CHR 0x27] @ ''kind'' @ [CHR 0x27], [])"
  by (simp add: apply_yaml_def apply_resource_def plain_rendering_simps)

text \<open>
  Claim C2, amended. A non-empty mapping without \<open>kind\<close> is not skipped: after documents
  that were processed without an exception it makes \<open>apply_yaml\<close> return the one line
  \<open>Error applying YAML: ...\<close> for the \<open>KeyError\<close> of \<open>kind\<close>; no call is made for it or for
  any later document. What is skipped, without a line and without a call, is a document
  that is empty or null: the batch behaves as if it were not there.
\<close>

theorem apply_yaml_missing_kind_aborts_batch:
  "(apply_loop R K nsp pre [] log = (Inr results, log1) \<and> kvs \<noteq> [] \<and> map_of kvs ''kind'' = None
      \<longrightarrow> apply_yaml R K (pre @ PDict kvs # rest) nsp force log
           = (''Error applying YAML: '' @ exc_str R (KeyError ''kind''), log1))
   \<and> (\<not> truthy d
      \<longrightarrow> apply_yaml R K (pre @ d # rest) nsp force log = apply_yaml R K (pre @ rest) nsp force log)"
proof -
  have "apply_yaml R K (pre @ PDict kvs # rest) nsp force log
           = (''Error applying YAML: '' @ exc_str R (KeyError ''kind''), log1)"
    if "apply_loop R K nsp pre [] log = (Inr results, log1)" "kvs \<noteq> []"
       "map_of kvs ''kind'' = None"
  proof (rule apply_yaml_abort [OF that(1)])
    show "truthy (PDict kvs)" using that(2) by simp
    show "apply_resource R K nsp (PDict kvs) log1 = (Inl (KeyError ''kind''), log1)"
      using that(3) by (simp add: apply_resource_def)
  qed
  moreover have "apply_yaml R K (pre @ d # rest) nsp force log
                 = apply_yaml R K (pre @ rest) nsp force log" if "\<not> truthy d"
    using that by (simp add: apply_yaml_def apply_loop_skip)
  ultimately show ?thesis by blast
qed

theorem apply_yaml_missing_kind_aborts_batch_witness:
  "apply_yaml plain_rendering empty_cluster
     ([config_map_doc ''a''] @ PDict [(''metadata'', PDict [(''name'', PStr ''x'')])]
        # [config_map_doc ''b'']) None False []
   = (''Error applying YAML: '' @ [CHR 0x27] @ ''kind'' @ [CHR 0x27],
      [Load_config, Read_namespaced_config_map (PStr ''a'') (PStr ''default''),
       Create_namespaced_config_map (PStr ''default'') (config_map_doc ''a'')])
   \<and> apply_yaml plain_rendering empty_cluster ([config_map_doc ''a''] @ PDict [] # [config_map_doc ''b''])
       None False []
     = apply_yaml plain_rendering empty_cluster ([config_map_doc ''a''] @ [config_map_doc ''b''])
         None False []"
  using apply_yaml_missing_kind_aborts_batch
          [of plain_rendering empty_cluster None "[config_map_doc ''a'']" "[]"
              "[''ConfigMap a created successfully'']"
              "[Load_config, Read_namespaced_config_map (PStr ''a'') (PStr ''default''),
                Create_namespaced_config_map (PStr ''default'') (config_map_doc ''a'')]"
              "[(''metadata'', PDict [(''name'', PStr ''x'')])]" "[config_map_doc ''b'']" False
              "PDict []"]
  by (simp add: apply_resource_def KubernetesManager_def upsert_config_map_def
        on_api_exception_def metadata_field_def py_str_def config_map_doc_def
        empty_cluster_simps plain_rendering_simps)

text \<open>
  Claim C8. The server constructs one \<open>KubernetesManager\<close> at its start (the first
  \<open>Load_config\<close> below). \<open>apply_yaml\<close> does not receive it: it calls \<open>KubernetesManager()\<close>
  for every ConfigMap document, so a batch of two ConfigMaps runs configuration discovery
  and builds the API clients two more times.
\<close>

theorem apply_yaml_constructs_manager_per_document:
  "snd (apply_yaml plain_rendering empty_cluster [config_map_doc ''a'', config_map_doc ''b'']
          None False [Load_config])
   = [Load_config,
      Load_config, Read_namespaced_config_map (PStr ''a'') (PStr ''default''),
      Create_namespaced_config_map (PStr ''default'') (config_map_doc ''a''),
      Load_config, Read_namespaced_config_map (PStr ''b'') (PStr ''default''),
      Create_namespaced_config_map (PStr ''default'') (config_map_doc ''b'')]"
  by (simp add: apply_yaml_def apply_resource_def KubernetesManager_def upsert_config_map_def
        on_api_exception_def metadata_field_def config_map_doc_def empty_cluster_simps)

section \<open>Properties of template resolution and of the create operations\<close>















section \<open>Properties of the deployment operations\<close>






end
